theory Spec2Isabelle
  imports Complex_Main "HOL-Library.AList"
begin

section \<open>Python values\<close>

text \<open>
  The two modules compute with Python floats. A float that is not NaN is read as the real
  number it denotes, and arithmetic on floats as arithmetic on reals (rounding, infinities
  and overflow are not modelled). NaN only occurs in the indicator columns of
  \<open>ouro_lib.calcind\<close>, where it marks the warm-up rows; there a cell is a
  \<open>real option\<close> and \<open>None\<close> is NaN. Every uncaught exception of the source is a value
  of \<open>py_error\<close>.
\<close>

datatype py_error = ZeroDivisionError | KeyError | TypeError

text \<open>Comparisons of pandas cells: any comparison with NaN is False.\<close>

definition nan_lt :: "real option \<Rightarrow> real option \<Rightarrow> bool" where
  "nan_lt a b = (case a of None \<Rightarrow> False | Some x \<Rightarrow> (case b of None \<Rightarrow> False | Some y \<Rightarrow> x < y))"

definition nan_le :: "real option \<Rightarrow> real option \<Rightarrow> bool" where
  "nan_le a b = (case a of None \<Rightarrow> False | Some x \<Rightarrow> (case b of None \<Rightarrow> False | Some y \<Rightarrow> x \<le> y))"

definition nan_gt :: "real option \<Rightarrow> real option \<Rightarrow> bool" where
  "nan_gt a b = nan_lt b a"

definition nan_ge :: "real option \<Rightarrow> real option \<Rightarrow> bool" where
  "nan_ge a b = nan_le b a"

definition nan_eq :: "real option \<Rightarrow> real option \<Rightarrow> bool" where
  "nan_eq a b = (case a of None \<Rightarrow> False | Some x \<Rightarrow> (case b of None \<Rightarrow> False | Some y \<Rightarrow> x = y))"

definition nan_sub :: "real option \<Rightarrow> real option \<Rightarrow> real option" where
  "nan_sub a b = (case a of None \<Rightarrow> None | Some x \<Rightarrow> (case b of None \<Rightarrow> None | Some y \<Rightarrow> Some (x - y)))"

text \<open>
  Python's \<open>chr\<close> on the code points the classifier produces (65, 66 and 67). A
  \<open>char\<close> of HOL is a byte, so only code points below 256 are represented.
\<close>

definition chr :: "int \<Rightarrow> char" where
  "chr n = char_of n"

text \<open>Python's \<open>int(x)\<close> on a float truncates towards zero.\<close>

definition py_int :: "real \<Rightarrow> int" where
  "py_int x = (if 0 \<le> x then \<lfloor>x\<rfloor> else \<lceil>x\<rceil>)"

section \<open>ouro\_lib.calcind: the signal classifier\<close>

text \<open>
  One row of the data frame after the indicator library has filled its columns; only the
  columns that the votes or \<open>dropna\<close> read are kept. The indicator library itself
  (talib) is outside the repository, so its output is the input here.
\<close>

record indicators =
  AROONUP :: "real option"
  AROONDN :: "real option"
  BOP :: "real option"
  CCI14 :: "real option"
  CMO14 :: "real option"
  MACDHIST :: "real option"
  PPO12 :: "real option"
  RSI14 :: "real option"
  STOCHK :: "real option"
  STOCHD :: "real option"
  STOCHRSIK :: "real option"
  STOCHRSID :: "real option"
  TRIX30 :: "real option"
  ADOSC :: "real option"

record votes =
  AROONVOTE :: int
  BOPVOTE :: int
  CCIVOTE :: int
  CMOVOTE :: int
  MACDVOTE :: int
  PPOVOTE :: int
  RSIVOTE :: int
  STOCHVOTE :: int
  STOCHRSIVOTE :: int
  TRIXVOTE :: int
  ADOSCVOTE :: int

record classified =
  ind :: indicators
  vote :: votes
  STRATEGY_ID :: string

text \<open>
  Each vote column is set to 0 and then overwritten by two \<open>df.loc[cond, col] = value\<close>
  assignments, in the order of the source: a later assignment wins where both conditions hold.
\<close>

definition AROONOSC :: "indicators \<Rightarrow> real option" where
  "AROONOSC r = nan_sub (AROONDN r) (AROONUP r)"

definition aroonvote :: "indicators \<Rightarrow> int" where
  "aroonvote r =
     (let v0 = 0;
          v1 = (if nan_ge (AROONOSC r) (Some 25) then 1 else v0);
          v2 = (if nan_le (AROONOSC r) (Some (- 25)) then - 1 else v1)
      in v2)"

definition bopvote :: "indicators \<Rightarrow> int" where
  "bopvote r =
     (let v0 = 0;
          v1 = (if nan_gt (BOP r) (Some 0) then 1 else v0);
          v2 = (if nan_lt (BOP r) (Some 0) then - 1 else v1)
      in v2)"

definition ccivote :: "indicators \<Rightarrow> int" where
  "ccivote r =
     (let v0 = 0;
          v1 = (if nan_ge (CCI14 r) (Some 100) then 1 else v0);
          v2 = (if nan_le (CCI14 r) (Some (- 100)) then - 1 else v1)
      in v2)"

definition cmovote :: "indicators \<Rightarrow> int" where
  "cmovote r =
     (let v0 = 0;
          v1 = (if nan_lt (CMO14 r) (Some (- 50)) then 1 else v0);
          v2 = (if nan_gt (CMO14 r) (Some 50) then - 1 else v1)
      in v2)"

text \<open>
  \<open>shift\<close> is \<open>Series.shift(periods=-1)\<close>: position \<open>i\<close> receives the value of
  position \<open>i + 1\<close> and the last position receives NaN. \<open>macdvote h nxt\<close> is the MACD
  vote of a row whose histogram is \<open>h\<close> and whose shifted histogram is \<open>nxt\<close>.
\<close>

definition shift :: "real option list \<Rightarrow> real option list" where
  "shift xs = (case xs of [] \<Rightarrow> [] | _ # t \<Rightarrow> t @ [None])"

definition macdvote :: "real option \<Rightarrow> real option \<Rightarrow> int" where
  "macdvote h nxt =
     (let v0 = 0;
          v1 = (if nan_gt h (Some 0) \<and> nan_lt nxt h then 1 else v0);
          v2 = (if nan_lt h (Some 0) \<and> nan_gt nxt h then - 1 else v1);
          v3 = (if nan_eq h (Some 0) then 0 else v2)
      in v3)"

definition MACDVOTE_column :: "real option list \<Rightarrow> int list" where
  "MACDVOTE_column hist = map2 macdvote hist (shift hist)"

definition ppovote :: "indicators \<Rightarrow> int" where
  "ppovote r = 0"

definition rsivote :: "indicators \<Rightarrow> int" where
  "rsivote r =
     (let v0 = 0;
          v1 = (if nan_ge (RSI14 r) (Some 70) then - 1 else v0);
          v2 = (if nan_le (RSI14 r) (Some 30) then 1 else v1)
      in v2)"

definition stochvote :: "indicators \<Rightarrow> int" where
  "stochvote r =
     (let v0 = 0;
          v1 = (if nan_ge (STOCHK r) (Some 80) \<and> nan_ge (STOCHD r) (Some 80) then - 1 else v0);
          v2 = (if nan_le (STOCHK r) (Some 20) \<and> nan_le (STOCHD r) (Some 20) then 1 else v1)
      in v2)"

definition stochrsivote :: "indicators \<Rightarrow> int" where
  "stochrsivote r =
     (let v0 = 0;
          v1 = (if nan_ge (STOCHRSIK r) (Some 80) \<and> nan_ge (STOCHRSID r) (Some 80) then - 1 else v0);
          v2 = (if nan_le (STOCHRSIK r) (Some 20) \<and> nan_le (STOCHRSID r) (Some 20) then 1 else v1)
      in v2)"

definition trixvote :: "indicators \<Rightarrow> int" where
  "trixvote r =
     (let v0 = 0;
          v1 = (if nan_gt (TRIX30 r) (Some 0) then 1 else v0);
          v2 = (if nan_lt (TRIX30 r) (Some 0) then - 1 else v1)
      in v2)"

definition adoscvote :: "indicators \<Rightarrow> int" where
  "adoscvote r =
     (let v0 = 0;
          v1 = (if nan_gt (ADOSC r) (Some 0) then 1 else v0);
          v2 = (if nan_lt (ADOSC r) (Some 0) then - 1 else v1)
      in v2)"

definition vote_row :: "indicators \<Rightarrow> int \<Rightarrow> votes" where
  "vote_row r m =
     \<lparr>AROONVOTE = aroonvote r, BOPVOTE = bopvote r, CCIVOTE = ccivote r,
      CMOVOTE = cmovote r, MACDVOTE = m, PPOVOTE = ppovote r, RSIVOTE = rsivote r,
      STOCHVOTE = stochvote r, STOCHRSIVOTE = stochrsivote r, TRIXVOTE = trixvote r,
      ADOSCVOTE = adoscvote r\<rparr>"

text \<open>
  \<open>df.dropna(subset=[...])\<close> keeps a row when none of the listed columns is NaN;
  \<open>TRIX30\<close> is not in the list.
\<close>

definition notna :: "indicators \<Rightarrow> bool" where
  "notna r =
     (AROONUP r \<noteq> None \<and> AROONDN r \<noteq> None \<and> BOP r \<noteq> None \<and> CCI14 r \<noteq> None \<and>
      CMO14 r \<noteq> None \<and> MACDHIST r \<noteq> None \<and> PPO12 r \<noteq> None \<and> RSI14 r \<noteq> None \<and>
      STOCHK r \<noteq> None \<and> STOCHD r \<noteq> None \<and> STOCHRSIK r \<noteq> None \<and> STOCHRSID r \<noteq> None \<and>
      ADOSC r \<noteq> None)"

text \<open>The loop over the remaining rows: eleven characters \<open>chr(66 + vote)\<close>, concatenated.\<close>

definition strategy_id :: "votes \<Rightarrow> string" where
  "strategy_id v =
     [chr (66 + AROONVOTE v), chr (66 + BOPVOTE v), chr (66 + CCIVOTE v),
      chr (66 + CMOVOTE v), chr (66 + MACDVOTE v), chr (66 + PPOVOTE v),
      chr (66 + RSIVOTE v), chr (66 + STOCHVOTE v), chr (66 + STOCHRSIVOTE v),
      chr (66 + TRIXVOTE v), chr (66 + ADOSCVOTE v)]"

text \<open>
  \<open>calcind\<close> returns nothing (Python's None) for an empty frame. Otherwise the votes are
  computed on every row, the MACD vote against the shifted histogram of the whole frame,
  then the NaN rows are dropped and the identifier is written into each remaining row.
\<close>

definition calcind :: "indicators list \<Rightarrow> classified list option" where
  "calcind df =
     (if df = [] then None
      else Some (map (\<lambda>(r, m). \<lparr>ind = r, vote = vote_row r m, STRATEGY_ID = strategy_id (vote_row r m)\<rparr>)
                  (filter (\<lambda>(r, m). notna r) (zip df (MACDVOTE_column (map MACDHIST df))))))"

subsection \<open>Reading an identifier back\<close>

text \<open>
  Modelled from the spec: the repository's two source files have no decoder of
  \<open>STRATEGY_ID\<close>; the specification names one, \<open>decode\<close>, with \<open>'A' = -1\<close>,
  \<open>'B' = 0\<close>, \<open>'C' = +1\<close> at each of the eleven positions. \<open>abc\<close> is the table of the
  specification in the direction of encoding.
\<close>

definition abc :: "int \<Rightarrow> char" where
  "abc x = (if x = - 1 then CHR ''A'' else if x = 0 then CHR ''B'' else CHR ''C'')"

text \<open>
  Modelled from the spec: one character of an identifier read back, \<open>'A' = -1\<close>,
  \<open>'B' = 0\<close>, \<open>'C' = +1\<close>; the source has no such function.
\<close>

definition decode_char :: "char \<Rightarrow> int option" where
  "decode_char c =
     (if c = CHR ''A'' then Some (- 1) else if c = CHR ''B'' then Some 0
      else if c = CHR ''C'' then Some 1 else None)"

text \<open>
  Modelled from the spec: \<open>decode\<close>, absent from the source, reads an identifier of
  eleven characters among A, B and C back into the eleven votes, in the order of encoding.
\<close>

definition decode :: "string \<Rightarrow> votes option" where
  "decode s =
     (if length s = 11 \<and> list_all (\<lambda>c. decode_char c \<noteq> None) s
      then Some \<lparr>AROONVOTE = the (decode_char (s ! 0)), BOPVOTE = the (decode_char (s ! 1)),
                 CCIVOTE = the (decode_char (s ! 2)), CMOVOTE = the (decode_char (s ! 3)),
                 MACDVOTE = the (decode_char (s ! 4)), PPOVOTE = the (decode_char (s ! 5)),
                 RSIVOTE = the (decode_char (s ! 6)), STOCHVOTE = the (decode_char (s ! 7)),
                 STOCHRSIVOTE = the (decode_char (s ! 8)), TRIXVOTE = the (decode_char (s ! 9)),
                 ADOSCVOTE = the (decode_char (s ! 10))\<rparr>
      else None)"

text \<open>The vote vectors over \<open>{-1, 0, 1}\<close>.\<close>

definition tri :: "int \<Rightarrow> bool" where
  "tri x = (x = - 1 \<or> x = 0 \<or> x = 1)"

definition valid_votes :: "votes \<Rightarrow> bool" where
  "valid_votes v =
     (tri (AROONVOTE v) \<and> tri (BOPVOTE v) \<and> tri (CCIVOTE v) \<and> tri (CMOVOTE v) \<and>
      tri (MACDVOTE v) \<and> tri (PPOVOTE v) \<and> tri (RSIVOTE v) \<and> tri (STOCHVOTE v) \<and>
      tri (STOCHRSIVOTE v) \<and> tri (TRIXVOTE v) \<and> tri (ADOSCVOTE v))"

section \<open>ouro\_trader: the trading session\<close>

subsection \<open>Data\<close>

type_synonym ticker = string

text \<open>
  The broker's account object. The script reads \<open>buying_power\<close> and \<open>multiplier\<close>
  only; \<open>account_cash\<close> is the account's own cash attribute, which the script never reads.
\<close>

record account =
  account_cash :: real
  buying_power :: real
  multiplier :: real

text \<open>One entry of the inbound action file, \<open>inboundactions[stock]\<close>.\<close>

record inbound =
  price :: real
  recenthigh :: real
  recentlow :: real
  strategyfamily :: string

text \<open>One entry of the \<open>status\<close> dictionary, with the keys of the source.\<close>

record status_row =
  DateTime :: string
  Ticker :: ticker
  Cash :: real
  TradeCapital :: real
  BuyPrice :: real
  BuyLimit :: real
  MaxRiskAmt :: real
  TradeRiskAmt :: real
  TradeRiskPct :: real
  PortfolioRiskPct :: real
  FamilyReturnPct :: real
  TradeReturnPct :: real
  OrderShares :: int
  RecentHigh :: real
  RecentLow :: real
  FloorPrice :: real
  CeilingPrice :: real
  Decision :: string
  Reason :: string

text \<open>
  A JSON value; the text that \<open>json.dumps\<close> writes is identified with the value it
  serialises. A file holds \<open>None\<close> while it is empty.
\<close>

datatype json =
  JStr string
  | JNum real
  | JInt int
  | JList "json list"
  | JObj "(string \<times> json) list"

text \<open>
  The module-level variables of the script that the trading loop reads or writes. The
  dictionaries \<open>familyreturns\<close> and \<open>closeprices\<close> are built before the loop; \<open>status\<close>
  keeps the insertion order of its keys, as a Python dictionary does
  (\<open>AList.update\<close> replaces the value of a key in place and appends a new key).
\<close>

record session =
  familyreturns :: "string \<rightharpoonup> real"
  closeprices :: "ticker \<rightharpoonup> real"
  cash :: real
  tradecapital :: real
  boughtlist :: "ticker list"
  skiplist :: "ticker list"
  status :: "(ticker \<times> status_row) list"
  buyskip_file :: "json option"

text \<open>
  What the broker answers while one stock is evaluated: the number that
  \<open>ol.GetOrderCount()\<close> returns (the number of held positions), and whether
  \<open>alpaca.submit_order\<close> raises.
\<close>

record broker =
  ordercount :: nat
  submit_raises :: bool

subsection \<open>Before the loop\<close>

definition maxriskratio :: real where
  "maxriskratio = 0.004"

text \<open>
  Lines 107 to 109 and the initial values of lines 76 to 78 and 43: the cash figure, the
  trade capital, the empty lists and the emptied snapshot file.
\<close>

definition start_session :: "account \<Rightarrow> (string \<rightharpoonup> real) \<Rightarrow> (ticker \<rightharpoonup> real) \<Rightarrow> py_error + session" where
  "start_session acct fr cp =
     (if multiplier acct = 0 then Inl ZeroDivisionError
      else
        let cash0 = buying_power acct / multiplier acct - 25001;
            tradecapital0 = cash0 / 10
        in Inr \<lparr>familyreturns = fr, closeprices = cp, cash = cash0, tradecapital = tradecapital0,
                 boughtlist = [], skiplist = [], status = [], buyskip_file = None\<rparr>)"

subsection \<open>Pricing and sizing of one stock\<close>

text \<open>
  The conditions of the three rules that zero the share count: lines 195 and 199, line 220
  and line 225.
\<close>

definition stop_loss_hit :: "string \<Rightarrow> real \<Rightarrow> real \<Rightarrow> bool" where
  "stop_loss_hit family floorprice0 recentlow0 =
     (family \<noteq> ''Candlestick'' \<and> floorprice0 > recentlow0)"

definition return_met :: "real \<Rightarrow> real \<Rightarrow> real \<Rightarrow> bool" where
  "return_met stockprice yesterdayclose traderet0 =
     ((stockprice - yesterdayclose) / yesterdayclose \<ge> traderet0)"

definition bad_trade :: "real \<Rightarrow> real \<Rightarrow> bool" where
  "bad_trade traderet0 traderiskpct0 = (traderet0 - 0.005 \<le> traderiskpct0)"

text \<open>The values of the local variables after line 201.\<close>

record baseline =
  b_skipreason :: string
  b_ordershares :: int
  b_familyret :: real
  b_floorpct :: real
  b_floorprice :: real
  b_ceilingprice :: real

text \<open>
  Lines 181 to 201: the skip reason is reset, the family's return is looked up (a missing
  family raises KeyError), the floor and the ceiling are set, and for every family but
  Candlestick the ceiling is pulled under the recent high and a floor above the recent low
  zeroes the order.
\<close>

definition reality_check :: "(string \<rightharpoonup> real) \<Rightarrow> inbound \<Rightarrow> int \<Rightarrow> py_error + baseline" where
  "reality_check fr a ordershares0 =
     (case fr (strategyfamily a) of
        None \<Rightarrow> Inl KeyError
      | Some avg \<Rightarrow>
          let skipreason0 = ''Unknown'';
              familyret = avg * 0.8;
              floorpct = familyret * 0.5;
              floorprice0 = price a * (1 - floorpct);
              ceilingprice0 = price a * (1 + avg);
              ceilingprice1 =
                (if strategyfamily a \<noteq> ''Candlestick'' \<and> ceilingprice0 > recenthigh a
                 then recenthigh a - 0.05 else ceilingprice0);
              hit = stop_loss_hit (strategyfamily a) floorprice0 (recentlow a);
              skipreason1 =
                (if hit then ''Proposed stop-loss price already hit today'' else skipreason0);
              ordershares1 = (if hit then 0 else ordershares0)
          in Inr \<lparr>b_skipreason = skipreason1, b_ordershares = ordershares1,
                   b_familyret = familyret, b_floorpct = floorpct, b_floorprice = floorprice0,
                   b_ceilingprice = ceilingprice1\<rparr>)"

text \<open>The values of the local variables after line 228.\<close>

record pricing =
  skipreason :: string
  ordershares :: int
  familyret :: real
  floorprice :: real
  ceilingprice :: real
  buylimit :: real
  traderiskamt :: real
  traderiskpct :: real
  traderet :: real

text \<open>
  Lines 203 to 228: the floor is moved when the risk exceeds \<open>maxriskamt\<close>, the risk, the
  buy limit and the trade return are computed, and two more rules zero the order, each
  overwriting the skip reason. The three divisions raise on a zero divisor.
\<close>

definition risk_block :: "real \<Rightarrow> real \<Rightarrow> inbound \<Rightarrow> baseline \<Rightarrow> py_error + pricing" where
  "risk_block maxriskamt yesterdayclose a b =
     (let stockprice = price a;
          floorprice1 =
            (if stockprice * of_int (b_ordershares b) * b_floorpct b > maxriskamt
             then stockprice - (b_ceilingprice b - stockprice) * 0.4 else b_floorprice b);
          traderiskamt1 = (stockprice - floorprice1) * of_int (b_ordershares b)
      in if stockprice = 0 then Inl ZeroDivisionError
         else
           let traderiskpct1 = (stockprice - floorprice1) / stockprice;
               buylimit1 = (b_ceilingprice b - stockprice) * 0.05 + stockprice
           in if buylimit1 = 0 then Inl ZeroDivisionError
              else
                let traderet1 = (b_ceilingprice b - buylimit1) / buylimit1
                in if yesterdayclose = 0 then Inl ZeroDivisionError
                   else
                     let met = return_met stockprice yesterdayclose traderet1;
                         ordershares2 = (if met then 0 else b_ordershares b);
                         skipreason2 =
                           (if met then ''The potential return has already been met today.''
                            else b_skipreason b);
                         bad = bad_trade traderet1 traderiskpct1;
                         ordershares3 = (if bad then 0 else ordershares2);
                         skipreason3 = (if bad then ''Risk outweighs reward'' else skipreason2)
                     in Inr \<lparr>skipreason = skipreason3, ordershares = ordershares3,
                              familyret = b_familyret b, floorprice = floorprice1,
                              ceilingprice = b_ceilingprice b, buylimit = buylimit1,
                              traderiskamt = traderiskamt1, traderiskpct = traderiskpct1,
                              traderet = traderet1\<rparr>)"

text \<open>
  The dictionary literal that the source writes three times (lines 255, 284 and 318) with
  a different decision and reason; \<open>traderiskamt/cash\<close> raises when the cash figure is 0.
\<close>

definition status_entry ::
  "string \<Rightarrow> ticker \<Rightarrow> session \<Rightarrow> inbound \<Rightarrow> real \<Rightarrow> pricing \<Rightarrow> string \<Rightarrow> string \<Rightarrow> py_error + status_row" where
  "status_entry logtime stock s a maxriskamt p decision reason =
     (if cash s = 0 then Inl ZeroDivisionError
      else Inr \<lparr>DateTime = logtime, Ticker = stock, Cash = cash s,
                 TradeCapital = tradecapital s, BuyPrice = price a, BuyLimit = buylimit p,
                 MaxRiskAmt = maxriskamt, TradeRiskAmt = traderiskamt p,
                 TradeRiskPct = traderiskpct p, PortfolioRiskPct = traderiskamt p / cash s,
                 FamilyReturnPct = familyret p, TradeReturnPct = traderet p,
                 OrderShares = ordershares p, RecentHigh = recenthigh a,
                 RecentLow = recentlow a, FloorPrice = floorprice p,
                 CeilingPrice = ceilingprice p, Decision = decision, Reason = reason\<rparr>)"

text \<open>Lines 306 to 312: the reason of a skip that no rule has named.\<close>

definition default_reason :: "session \<Rightarrow> broker \<Rightarrow> ticker \<Rightarrow> pricing \<Rightarrow> string" where
  "default_reason s br stock p =
     (let r1 = (if ordershares p = 0 \<and> skipreason p = ''Unknown''
                then ''Stock is too expensive or unable to buy shares.'' else skipreason p);
          r2 = (if stock \<in> set (boughtlist s) \<and> r1 = ''Unknown''
                then ''Stock in bought list.'' else r1);
          r3 = (if ordercount br \<ge> 10 \<and> r2 = ''Unknown''
                then ''Too many existing positions'' else r2)
      in r3)"

text \<open>
  Lines 230 to 338, inside \<open>if ordercount < 10\<close>: a positive share count submits the
  bracket order. When the submission raises, the handler records a skip that stays eligible
  and appends to neither list. When it returns, the stock is appended to \<open>boughtlist\<close> and
  its row is written; should the row itself raise, the same handler runs with the stock
  already appended and raises again unless the stock is in \<open>skiplist\<close>. Any other share
  count takes the \<open>else\<close> branch: the stock is appended to \<open>skiplist\<close> unless it is there,
  and its row is written.
\<close>

definition place_order :: "string \<Rightarrow> broker \<Rightarrow> real \<Rightarrow> session \<Rightarrow> ticker \<Rightarrow> inbound \<Rightarrow> pricing \<Rightarrow> py_error + session" where
  "place_order logtime br maxriskamt s stock a p =
     (if ordershares p > 0 then
        (if submit_raises br then
           (if stock \<notin> set (skiplist s) then
              (case status_entry logtime stock s a maxriskamt p ''skip''
                      (skipreason p @ '' - buy order failed; eligible for retry.'') of
                 Inl e \<Rightarrow> Inl e
               | Inr row \<Rightarrow> Inr (s\<lparr>status := AList.update stock row (status s)\<rparr>))
            else Inr s)
         else
           (case status_entry logtime stock s a maxriskamt p ''buy'' (strategyfamily a) of
              Inl e \<Rightarrow>
                (if stock \<notin> set (skiplist s) then Inl e
                 else Inr (s\<lparr>boughtlist := boughtlist s @ [stock]\<rparr>))
            | Inr row \<Rightarrow>
                Inr (s\<lparr>boughtlist := boughtlist s @ [stock],
                       status := AList.update stock row (status s)\<rparr>)))
      else
        (if stock \<notin> set (skiplist s) then
           (case status_entry logtime stock s a maxriskamt p ''skip''
                   (default_reason s br stock p @ ''; not eligible for retry.'') of
              Inl e \<Rightarrow> Inl e
            | Inr row \<Rightarrow>
                Inr (s\<lparr>skiplist := skiplist s @ [stock],
                       status := AList.update stock row (status s)\<rparr>))
         else Inr s))"

text \<open>
  Lines 150 to 228, the pricing and sizing that the specification calls the RiskEngine.
  Yesterday's close of a stock that \<open>closeprices\<close> does not hold is \<open>float(None)\<close>, a
  TypeError; the share count divides by the price before the order count is tested. With
  ten or more held positions the block of lines 180 to 228 is not run: no skip reason is
  assigned and no price is set, which is the result \<open>None\<close>.
\<close>

definition risk_engine :: "broker \<Rightarrow> real \<Rightarrow> session \<Rightarrow> ticker \<Rightarrow> inbound \<Rightarrow> py_error + pricing option" where
  "risk_engine br bandwagondiscount s stock a =
     (case closeprices s stock of
        None \<Rightarrow> Inl TypeError
      | Some yesterdayclose \<Rightarrow>
          let maxriskamt = cash s * maxriskratio * bandwagondiscount
          in if price a = 0 then Inl ZeroDivisionError
             else
               let ordershares0 = py_int (tradecapital s / price a)
               in if ordercount br < 10 then
                    (case reality_check (familyreturns s) a ordershares0 of
                       Inl e \<Rightarrow> Inl e
                     | Inr b \<Rightarrow>
                         (case risk_block maxriskamt yesterdayclose a b of
                            Inl e \<Rightarrow> Inl e
                          | Inr p \<Rightarrow> Inr (Some p)))
                  else Inr None)"

text \<open>
  Lines 150 to 338, the body of the membership guard: the order is placed or the skip is
  recorded inside \<open>if ordercount < 10\<close>, so with ten or more held positions the session
  is left as it is.
\<close>

definition evaluate :: "string \<Rightarrow> broker \<Rightarrow> real \<Rightarrow> session \<Rightarrow> ticker \<Rightarrow> inbound \<Rightarrow> py_error + session" where
  "evaluate logtime br bandwagondiscount s stock a =
     (case risk_engine br bandwagondiscount s stock a of
        Inl e \<Rightarrow> Inl e
      | Inr None \<Rightarrow> Inr s
      | Inr (Some p) \<Rightarrow>
          place_order logtime br (cash s * maxriskratio * bandwagondiscount) s stock a p)"

subsection \<open>The loop over the inbound stocks\<close>

text \<open>
  The inbound actions are a dictionary read from JSON: a list of pairs in file order, whose
  keys are distinct. Lines 132 to 135 count the stocks in neither list; lines 139 to 147
  turn the count into the discount.
\<close>

definition inboundcount :: "session \<Rightarrow> (ticker \<times> inbound) list \<Rightarrow> nat" where
  "inboundcount s inboundactions =
     length (filter (\<lambda>stock. stock \<notin> set (boughtlist s) \<and> stock \<notin> set (skiplist s))
               (map fst inboundactions))"

definition bandwagon :: "nat \<Rightarrow> real" where
  "bandwagon n = (if n \<ge> 10 then 0.3 else 1)"

text \<open>One pass of the loop body of line 138: the membership guard of line 149.\<close>

definition iteration :: "string \<Rightarrow> broker \<Rightarrow> real \<Rightarrow> session \<Rightarrow> ticker \<Rightarrow> inbound \<Rightarrow> py_error + session" where
  "iteration logtime br bandwagondiscount s stock a =
     (if stock \<notin> set (boughtlist s) \<and> stock \<notin> set (skiplist s)
      then evaluate logtime br bandwagondiscount s stock a
      else Inr s)"

fun for_stocks ::
  "string \<Rightarrow> (ticker \<Rightarrow> broker) \<Rightarrow> real \<Rightarrow> (ticker \<times> inbound) list \<Rightarrow> session \<Rightarrow> py_error + session" where
  "for_stocks logtime env d [] s = Inr s"
| "for_stocks logtime env d ((stock, a) # rest) s =
     (case iteration logtime (env stock) d s stock a of
        Inl e \<Rightarrow> Inl e
      | Inr s' \<Rightarrow> for_stocks logtime env d rest s')"

subsection \<open>The snapshot file\<close>

definition row_json :: "status_row \<Rightarrow> json" where
  "row_json r =
     JObj [(''DateTime'', JStr (DateTime r)), (''Ticker'', JStr (Ticker r)),
           (''Cash'', JNum (Cash r)), (''TradeCapital'', JNum (TradeCapital r)),
           (''BuyPrice'', JNum (BuyPrice r)), (''BuyLimit'', JNum (BuyLimit r)),
           (''MaxRiskAmt'', JNum (MaxRiskAmt r)), (''TradeRiskAmt'', JNum (TradeRiskAmt r)),
           (''TradeRiskPct'', JNum (TradeRiskPct r)),
           (''PortfolioRiskPct'', JNum (PortfolioRiskPct r)),
           (''FamilyReturnPct'', JNum (FamilyReturnPct r)),
           (''TradeReturnPct'', JNum (TradeReturnPct r)),
           (''OrderShares'', JInt (OrderShares r)), (''RecentHigh'', JNum (RecentHigh r)),
           (''RecentLow'', JNum (RecentLow r)), (''FloorPrice'', JNum (FloorPrice r)),
           (''CeilingPrice'', JNum (CeilingPrice r)), (''Decision'', JStr (Decision r)),
           (''Reason'', JStr (Reason r))]"

definition status_json :: "(ticker \<times> status_row) list \<Rightarrow> json" where
  "status_json st = JObj (map (\<lambda>(k, r). (k, row_json r)) st)"

text \<open>
  The dictionary of line 352, \<open>{'buy': boughtlist, 'skip': skiplist}\<close>, as a JSON value.
\<close>

definition buyskip_json :: "ticker list \<Rightarrow> ticker list \<Rightarrow> json" where
  "buyskip_json bought skipped =
     JObj [(''buy'', JList (map JStr bought)), (''skip'', JList (map JStr skipped))]"

text \<open>
  Lines 351 to 357: \<open>tmp\<close> is bound to the dictionary of the two lists, then bound again
  to \<open>json.dumps(status, indent=4)\<close>, and the second value is written over the file.
\<close>

definition write_buyskip :: "session \<Rightarrow> session" where
  "write_buyskip s =
     (let tmp0 = buyskip_json (boughtlist s) (skiplist s);
          tmp1 = status_json (status s)
      in s\<lparr>buyskip_file := Some tmp1\<rparr>)"

text \<open>
  One tick of the trading loop, lines 112 to 357: the discount is fixed from the lists as
  they are when the tick begins, every inbound stock is visited, and the snapshot is
  written. The status table in CSV (lines 365 to 381) and the waits are left out; calls
  to the broker other than \<open>submit_order\<close> are taken to return.
\<close>

definition tick ::
  "string \<Rightarrow> (ticker \<Rightarrow> broker) \<Rightarrow> (ticker \<times> inbound) list \<Rightarrow> session \<Rightarrow> py_error + session" where
  "tick logtime env inboundactions s =
     (case for_stocks logtime env (bandwagon (inboundcount s inboundactions)) inboundactions s of
        Inl e \<Rightarrow> Inl e
      | Inr s' \<Rightarrow> Inr (write_buyskip s'))"

subsection \<open>Reachable states\<close>

text \<open>
  \<open>reaches s s'\<close>: the session can get from \<open>s\<close> to \<open>s'\<close> by passes of the loop body, with
  any inbound entry, any answer of the broker and any discount, and by writes of the
  snapshot. The states of a session are those that \<open>start_session\<close> reaches; they include
  the states in the middle of a tick.
\<close>

inductive reaches :: "session \<Rightarrow> session \<Rightarrow> bool" where
  here: "reaches s s"
| pass: "reaches s s' \<Longrightarrow> iteration logtime br d s' stock a = Inr s'' \<Longrightarrow> reaches s s''"
| snapshot: "reaches s s' \<Longrightarrow> reaches s (write_buyskip s')"

section \<open>Sample inputs\<close>

text \<open>
  A sample row: every indicator that \<open>dropna\<close> reads is defined, the CCI and the MACD
  histogram are the two arguments.
\<close>

definition sample_bar :: "real \<Rightarrow> real \<Rightarrow> indicators" where
  "sample_bar cci hist =
     \<lparr>AROONUP = Some 50, AROONDN = Some 50, BOP = Some 0, CCI14 = Some cci, CMO14 = Some 0,
      MACDHIST = Some hist, PPO12 = Some 0, RSI14 = Some 50, STOCHK = Some 50,
      STOCHD = Some 50, STOCHRSIK = Some 50, STOCHRSID = Some 50, TRIX30 = Some 0,
      ADOSC = Some 0\<rparr>"

text \<open>
  A session whose cash figure is 50000 (a buying power of 300004 on a multiplier of 4,
  less 25001) and whose trade capital is 5000, with one strategy family.
\<close>

definition demo_account :: account where
  "demo_account = \<lparr>account_cash = 60000, buying_power = 300004, multiplier = 4\<rparr>"

definition demo_returns :: "string \<rightharpoonup> real" where
  "demo_returns = [''Momentum'' \<mapsto> 0.02]"

definition demo_closes :: "ticker \<rightharpoonup> real" where
  "demo_closes = [''AAA'' \<mapsto> 98, ''BBB'' \<mapsto> 99.5, ''CCC'' \<mapsto> 49]"

definition demo_session :: session where
  "demo_session =
     \<lparr>familyreturns = demo_returns, closeprices = demo_closes, cash = 50000,
      tradecapital = 5000, boughtlist = [], skiplist = [], status = [], buyskip_file = None\<rparr>"

text \<open>
  Three inbound entries: \<open>momentum_action\<close> has the prices of the specification's worked
  example, \<open>steady_action\<close> has a recent low above the floor price, \<open>dip_action\<close> is the
  worked example at half the price.
\<close>

definition momentum_action :: inbound where
  "momentum_action =
     \<lparr>price = 100, recenthigh = 105, recentlow = 95, strategyfamily = ''Momentum''\<rparr>"

definition steady_action :: inbound where
  "steady_action =
     \<lparr>price = 100, recenthigh = 105, recentlow = 99.5, strategyfamily = ''Momentum''\<rparr>"

definition dip_action :: inbound where
  "dip_action =
     \<lparr>price = 50, recenthigh = 60, recentlow = 40, strategyfamily = ''Momentum''\<rparr>"

text \<open>Answers of the broker: three or ten held positions, a submission that goes through or raises.\<close>

definition three_held :: broker where
  "three_held = \<lparr>ordercount = 3, submit_raises = False\<rparr>"

definition three_held_refusing :: broker where
  "three_held_refusing = \<lparr>ordercount = 3, submit_raises = True\<rparr>"

definition ten_held :: broker where
  "ten_held = \<lparr>ordercount = 10, submit_raises = False\<rparr>"

definition calm_broker :: "ticker \<Rightarrow> broker" where
  "calm_broker stock = three_held"

definition crowded_broker :: "ticker \<Rightarrow> broker" where
  "crowded_broker stock = ten_held"

text \<open>
  The status rows and the sessions that the sample entries lead to: \<open>AAA\<close> skipped, then
  \<open>BBB\<close> bought; \<open>CCC\<close> skipped; \<open>BBB\<close> refused by the broker.
\<close>

definition momentum_row :: status_row where
  "momentum_row =
     \<lparr>DateTime = ''t0'', Ticker = ''AAA'', Cash = 50000, TradeCapital = 5000, BuyPrice = 100,
      BuyLimit = 100.1, MaxRiskAmt = 200, TradeRiskAmt = 0, TradeRiskPct = 0.008,
      PortfolioRiskPct = 0, FamilyReturnPct = 0.016, TradeReturnPct = 19 / 1001,
      OrderShares = 0, RecentHigh = 105, RecentLow = 95, FloorPrice = 99.2,
      CeilingPrice = 102, Decision = ''skip'',
      Reason = ''The potential return has already been met today.; not eligible for retry.''\<rparr>"

definition steady_row :: status_row where
  "steady_row =
     \<lparr>DateTime = ''t0'', Ticker = ''BBB'', Cash = 50000, TradeCapital = 5000, BuyPrice = 100,
      BuyLimit = 100.1, MaxRiskAmt = 200, TradeRiskAmt = 40, TradeRiskPct = 0.008,
      PortfolioRiskPct = 0.0008, FamilyReturnPct = 0.016, TradeReturnPct = 19 / 1001,
      OrderShares = 50, RecentHigh = 105, RecentLow = 99.5, FloorPrice = 99.2,
      CeilingPrice = 102, Decision = ''buy'', Reason = ''Momentum''\<rparr>"

definition dip_row :: status_row where
  "dip_row =
     \<lparr>DateTime = ''t0'', Ticker = ''CCC'', Cash = 50000, TradeCapital = 5000, BuyPrice = 50,
      BuyLimit = 50.05, MaxRiskAmt = 200, TradeRiskAmt = 0, TradeRiskPct = 0.008,
      PortfolioRiskPct = 0, FamilyReturnPct = 0.016, TradeReturnPct = 19 / 1001,
      OrderShares = 0, RecentHigh = 60, RecentLow = 40, FloorPrice = 49.6,
      CeilingPrice = 51, Decision = ''skip'',
      Reason = ''The potential return has already been met today.; not eligible for retry.''\<rparr>"

definition skipped_session :: session where
  "skipped_session = demo_session\<lparr>skiplist := [''AAA''], status := [(''AAA'', momentum_row)]\<rparr>"

definition traded_session :: session where
  "traded_session =
     demo_session\<lparr>boughtlist := [''BBB''], skiplist := [''AAA''],
                   status := [(''AAA'', momentum_row), (''BBB'', steady_row)]\<rparr>"

definition dipped_session :: session where
  "dipped_session = demo_session\<lparr>skiplist := [''CCC''], status := [(''CCC'', dip_row)]\<rparr>"

definition refused_session :: session where
  "refused_session =
     demo_session\<lparr>status := [(''BBB'',
        steady_row\<lparr>Decision := ''skip'',
                    Reason := ''Unknown - buy order failed; eligible for retry.''\<rparr>)]\<rparr>"

text \<open>The prices that the three entries are given with three held positions.\<close>

definition momentum_pricing :: pricing where
  "momentum_pricing =
     \<lparr>skipreason = ''The potential return has already been met today.'', ordershares = 0,
      familyret = 0.016, floorprice = 99.2, ceilingprice = 102, buylimit = 100.1,
      traderiskamt = 0, traderiskpct = 0.008, traderet = 19 / 1001\<rparr>"

definition steady_pricing :: pricing where
  "steady_pricing =
     \<lparr>skipreason = ''Unknown'', ordershares = 50, familyret = 0.016, floorprice = 99.2,
      ceilingprice = 102, buylimit = 100.1, traderiskamt = 40, traderiskpct = 0.008,
      traderet = 19 / 1001\<rparr>"

definition dip_pricing :: pricing where
  "dip_pricing =
     \<lparr>skipreason = ''The potential return has already been met today.'', ordershares = 0,
      familyret = 0.016, floorprice = 49.6, ceilingprice = 51, buylimit = 50.05,
      traderiskamt = 0, traderiskpct = 0.008, traderet = 19 / 1001\<rparr>"

definition dip_baseline :: baseline where
  "dip_baseline =
     \<lparr>b_skipreason = ''Proposed stop-loss price already hit today'', b_ordershares = 0,
      b_familyret = 0.016, b_floorpct = 0.008, b_floorprice = 49.6, b_ceilingprice = 51\<rparr>"

section \<open>Properties of the classifier\<close>

lemma chr_tri: "tri x \<Longrightarrow> chr (66 + x) = abc x"
  by (auto simp: tri_def chr_def abc_def char_of_def)

lemma abc_range: "tri x \<Longrightarrow> abc x \<in> {CHR ''A'', CHR ''B'', CHR ''C''}"
  by (auto simp: tri_def abc_def)

lemma decode_abc: "tri x \<Longrightarrow> decode_char (abc x) = Some x"
  by (auto simp: tri_def abc_def decode_char_def)

lemma strategy_id_abc:
  assumes "valid_votes v"
  shows "strategy_id v =
     [abc (AROONVOTE v), abc (BOPVOTE v), abc (CCIVOTE v), abc (CMOVOTE v), abc (MACDVOTE v),
      abc (PPOVOTE v), abc (RSIVOTE v), abc (STOCHVOTE v), abc (STOCHRSIVOTE v),
      abc (TRIXVOTE v), abc (ADOSCVOTE v)]"
  using assms by (simp add: valid_votes_def strategy_id_def chr_tri)

lemma decode_abc_list:
  assumes "valid_votes v"
  shows "decode [abc (AROONVOTE v), abc (BOPVOTE v), abc (CCIVOTE v), abc (CMOVOTE v),
      abc (MACDVOTE v), abc (PPOVOTE v), abc (RSIVOTE v), abc (STOCHVOTE v),
      abc (STOCHRSIVOTE v), abc (TRIXVOTE v), abc (ADOSCVOTE v)] = Some v"
  using assms by (cases v) (simp add: valid_votes_def decode_def decode_abc)

text \<open>
  C9. For every vote vector over \<open>{-1, 0, 1}\<close> the identifier has eleven characters, all
  among A, B and C; position by position, in the order Aroon, BOP, CCI, CMO, MACD, PPO, RSI,
  Stochastic, Stochastic-RSI, TRIX, Chaikin A/D, the character is A for -1, B for 0 and C
  for +1; and decoding the identifier gives the vote vector back.
\<close>

theorem strategy_id_roundtrip:
  assumes "valid_votes v"
  shows "length (strategy_id v) = 11
     \<and> set (strategy_id v) \<subseteq> {CHR ''A'', CHR ''B'', CHR ''C''}
     \<and> strategy_id v =
         [abc (AROONVOTE v), abc (BOPVOTE v), abc (CCIVOTE v), abc (CMOVOTE v),
          abc (MACDVOTE v), abc (PPOVOTE v), abc (RSIVOTE v), abc (STOCHVOTE v),
          abc (STOCHRSIVOTE v), abc (TRIXVOTE v), abc (ADOSCVOTE v)]
     \<and> decode (strategy_id v) = Some v"
proof -
  have len: "length (strategy_id v) = 11"
    by (simp add: strategy_id_def)
  have eq: "strategy_id v =
         [abc (AROONVOTE v), abc (BOPVOTE v), abc (CCIVOTE v), abc (CMOVOTE v),
          abc (MACDVOTE v), abc (PPOVOTE v), abc (RSIVOTE v), abc (STOCHVOTE v),
          abc (STOCHRSIVOTE v), abc (TRIXVOTE v), abc (ADOSCVOTE v)]"
    by (rule strategy_id_abc [OF assms])
  have "\<forall>x \<in> {AROONVOTE v, BOPVOTE v, CCIVOTE v, CMOVOTE v, MACDVOTE v, PPOVOTE v,
          RSIVOTE v, STOCHVOTE v, STOCHRSIVOTE v, TRIXVOTE v, ADOSCVOTE v}. tri x"
    using assms by (simp add: valid_votes_def)
  then have rng: "set (strategy_id v) \<subseteq> {CHR ''A'', CHR ''B'', CHR ''C''}"
    unfolding eq using abc_range by auto
  have dec: "decode (strategy_id v) = Some v"
    unfolding eq by (rule decode_abc_list [OF assms])
  from len rng eq dec show ?thesis by blast
qed

theorem strategy_id_roundtrip_witness:
  "valid_votes \<lparr>AROONVOTE = 1, BOPVOTE = - 1, CCIVOTE = 0, CMOVOTE = 0, MACDVOTE = 1,
      PPOVOTE = 0, RSIVOTE = - 1, STOCHVOTE = 0, STOCHRSIVOTE = 1, TRIXVOTE = - 1,
      ADOSCVOTE = 1\<rparr>
   \<and> strategy_id \<lparr>AROONVOTE = 1, BOPVOTE = - 1, CCIVOTE = 0, CMOVOTE = 0, MACDVOTE = 1,
      PPOVOTE = 0, RSIVOTE = - 1, STOCHVOTE = 0, STOCHRSIVOTE = 1, TRIXVOTE = - 1,
      ADOSCVOTE = 1\<rparr> = ''CABBCBABCAC''
   \<and> decode ''CABBCBABCAC'' = Some \<lparr>AROONVOTE = 1, BOPVOTE = - 1, CCIVOTE = 0, CMOVOTE = 0,
      MACDVOTE = 1, PPOVOTE = 0, RSIVOTE = - 1, STOCHVOTE = 0, STOCHRSIVOTE = 1,
      TRIXVOTE = - 1, ADOSCVOTE = 1\<rparr>"
proof -
  let ?v = "\<lparr>AROONVOTE = 1, BOPVOTE = - 1, CCIVOTE = 0, CMOVOTE = 0, MACDVOTE = 1,
      PPOVOTE = 0, RSIVOTE = - 1, STOCHVOTE = 0, STOCHRSIVOTE = 1, TRIXVOTE = - 1,
      ADOSCVOTE = 1\<rparr>"
  have h: "valid_votes ?v"
    by (simp add: valid_votes_def tri_def)
  have id: "strategy_id ?v = ''CABBCBABCAC''"
    by (simp add: strategy_id_def chr_def char_of_def)
  from strategy_id_roundtrip [OF h] have "decode (strategy_id ?v) = Some ?v"
    by blast
  with h id show ?thesis by simp
qed


text \<open>
  Every row that \<open>calcind\<close> returns carries votes among -1, 0 and 1, and its identifier
  is the encoding of its votes: the identifiers of the classifier are within the reach of
  the round trip.
\<close>

lemma macdvote_tri: "tri (macdvote h n)"
  by (simp add: macdvote_def tri_def)

lemma MACDVOTE_column_tri: "m \<in> set (MACDVOTE_column hist) \<Longrightarrow> tri m"
  by (auto simp: MACDVOTE_column_def macdvote_tri)

lemma vote_row_valid: "tri m \<Longrightarrow> valid_votes (vote_row r m)"
  by (simp add: valid_votes_def vote_row_def tri_def aroonvote_def bopvote_def ccivote_def
      cmovote_def ppovote_def rsivote_def stochvote_def stochrsivote_def trixvote_def
      adoscvote_def)

lemma calcind_votes_valid:
  assumes "calcind df = Some out" and "c \<in> set out"
  shows "valid_votes (vote c) \<and> STRATEGY_ID c = strategy_id (vote c)"
proof -
  from assms(1) have out: "out = map (\<lambda>(r, m). \<lparr>ind = r, vote = vote_row r m, STRATEGY_ID = strategy_id (vote_row r m)\<rparr>)
                  (filter (\<lambda>(r, m). notna r) (zip df (MACDVOTE_column (map MACDHIST df))))"
    by (simp add: calcind_def split: if_splits)
  from assms(2) obtain r m where c: "c = \<lparr>ind = r, vote = vote_row r m, STRATEGY_ID = strategy_id (vote_row r m)\<rparr>"
    and m: "m \<in> set (MACDVOTE_column (map MACDHIST df))"
    unfolding out by (auto dest: set_zip_rightD)
  from MACDVOTE_column_tri [OF m] have "valid_votes (vote_row r m)" by (rule vote_row_valid)
  then show ?thesis by (simp add: c)
qed

subsection \<open>The CCI vote\<close>

lemma ccivote_Some:
  "CCI14 r = Some x \<Longrightarrow> (ccivote r = 1 \<longleftrightarrow> 100 \<le> x) \<and> (ccivote r = - 1 \<longleftrightarrow> x \<le> - 100)"
  by (simp add: ccivote_def nan_ge_def nan_le_def)

lemma calcind_rows:
  assumes "calcind df = Some out" and "c \<in> set out"
  shows "notna (ind c) \<and> (\<exists>m. vote c = vote_row (ind c) m)"
proof -
  from assms(1) have out: "out = map (\<lambda>(r, m). \<lparr>ind = r, vote = vote_row r m, STRATEGY_ID = strategy_id (vote_row r m)\<rparr>)
                  (filter (\<lambda>(r, m). notna r) (zip df (MACDVOTE_column (map MACDHIST df))))"
    by (simp add: calcind_def split: if_splits)
  from assms(2) show ?thesis
    unfolding out by auto
qed

text \<open>
  C2, as the code has it. For every classified bar (a row that \<open>dropna\<close> keeps, so its CCI
  is defined) the CCI vote is +1 exactly when CCI(14) is at least +100 and -1 exactly when
  CCI(14) is at most -100: the signs are the other way round from the table of the specification.
\<close>

theorem ccivote_classified:
  assumes "calcind df = Some out" and "c \<in> set out"
  shows "\<exists>x. CCI14 (ind c) = Some x
     \<and> (CCIVOTE (vote c) = 1 \<longleftrightarrow> 100 \<le> x)
     \<and> (CCIVOTE (vote c) = - 1 \<longleftrightarrow> x \<le> - 100)"
proof -
  from calcind_rows [OF assms] obtain m where na: "notna (ind c)" and v: "vote c = vote_row (ind c) m"
    by blast
  from na obtain x where x: "CCI14 (ind c) = Some x"
    by (auto simp: notna_def)
  have "CCIVOTE (vote c) = ccivote (ind c)"
    by (simp add: v vote_row_def)
  with ccivote_Some [OF x] x show ?thesis by simp
qed

lemma calcind_sample:
  "calcind [sample_bar 150 0] =
     Some [\<lparr>ind = sample_bar 150 0, vote = vote_row (sample_bar 150 0) 0,
            STRATEGY_ID = ''BBCBBBBBBBB''\<rparr>]"
  by (simp add: calcind_def MACDVOTE_column_def shift_def macdvote_def notna_def sample_bar_def
      vote_row_def strategy_id_def chr_def char_of_def aroonvote_def AROONOSC_def bopvote_def
      ccivote_def cmovote_def ppovote_def rsivote_def stochvote_def stochrsivote_def
      trixvote_def adoscvote_def nan_sub_def nan_ge_def nan_le_def nan_gt_def nan_lt_def
      nan_eq_def)

theorem ccivote_classified_witness:
  "calcind [sample_bar 150 0] =
     Some [\<lparr>ind = sample_bar 150 0, vote = vote_row (sample_bar 150 0) 0,
            STRATEGY_ID = ''BBCBBBBBBBB''\<rparr>]
   \<and> CCI14 (sample_bar 150 0) = Some 150
   \<and> CCIVOTE (vote_row (sample_bar 150 0) 0) = 1"
proof -
  let ?c = "\<lparr>ind = sample_bar 150 0, vote = vote_row (sample_bar 150 0) 0,
            STRATEGY_ID = ''BBCBBBBBBBB''\<rparr>"
  have mem: "?c \<in> set [?c]" by simp
  have cci: "CCI14 (sample_bar 150 0) = Some 150"
    by (simp add: sample_bar_def)
  from ccivote_classified [OF calcind_sample mem] cci
  have "CCIVOTE (vote_row (sample_bar 150 0) 0) = 1" by simp
  with calcind_sample cci show ?thesis by simp
qed

text \<open>
  C2 as the specification states it (Sell at +100 and above) fails on a bar with
  CCI(14) = 150: the bar is classified and its CCI vote is +1 (the character C in third
  position), not -1.
\<close>

theorem ccivote_sell_counterexample:
  "map_option (map STRATEGY_ID) (calcind [sample_bar 150 0]) = Some [''BBCBBBBBBBB'']
   \<and> CCI14 (sample_bar 150 0) = Some 150
   \<and> CCIVOTE (vote_row (sample_bar 150 0) 0) \<noteq> - 1"
  by (simp add: calcind_sample) (simp add: sample_bar_def vote_row_def ccivote_def nan_ge_def nan_le_def)

subsection \<open>The MACD vote\<close>

text \<open>
  The vote of a bar with a defined histogram and a defined next bar, the vote of a bar with
  no next bar, and the last vote of the column.
\<close>

lemma macdvote_defined:
  "macdvote (Some h) (Some n) =
     (if h > 0 \<and> n < h then 1 else if h < 0 \<and> n > h then - 1 else 0)"
  by (simp add: macdvote_def nan_gt_def nan_lt_def nan_eq_def)

lemma macdvote_no_next: "macdvote h None = 0"
  by (simp add: macdvote_def nan_gt_def nan_lt_def nan_eq_def split: option.splits)

lemma shift_snoc: "shift (ys @ [y]) = tl (ys @ [y]) @ [None]"
  by (cases ys) (simp_all add: shift_def)

lemma MACDVOTE_column_last:
  assumes "hist \<noteq> []"
  shows "length (MACDVOTE_column hist) = length hist \<and> last (MACDVOTE_column hist) = 0"
proof -
  from assms obtain ys y where h: "hist = ys @ [y]"
    by (cases hist rule: rev_cases) auto
  have len: "length (tl (ys @ [y])) = length ys" by simp
  have z: "zip (ys @ [y]) (tl (ys @ [y]) @ [None]) = zip ys (tl (ys @ [y])) @ [(y, None)]"
    using len by (simp add: zip_append del: tl_append2)
  show ?thesis
    unfolding MACDVOTE_column_def h shift_snoc z
    using len by (simp add: macdvote_no_next del: tl_append2)
qed

text \<open>
  C5. The comment above the MACD vote says it is based on the histogram crossing the zero
  line. On the histogram -1, +1 (an upward crossing between bar 0 and bar 1) the vote of
  bar 0 is -1, a Sell; on +1, -1 (a downward crossing) it is +1, a Buy; on 5, 3 (no
  crossing at all) it is +1. The last bar of each frame votes 0.
\<close>

theorem macdvote_crossing_evaluated:
  "MACDVOTE_column [Some (- 1), Some 1] = [- 1, 0]
   \<and> MACDVOTE_column [Some 1, Some (- 1)] = [1, 0]
   \<and> MACDVOTE_column [Some 5, Some 3] = [1, 0]"
  by (simp add: MACDVOTE_column_def shift_def macdvote_def nan_gt_def nan_lt_def nan_eq_def)

section \<open>Properties of the trading session\<close>

subsection \<open>The effect of one pass\<close>

lemma status_entry_row:
  "status_entry logtime stock s a m p dec rsn = Inr row \<Longrightarrow>
     Cash row = cash s \<and> TradeCapital row = tradecapital s \<and> Decision row = dec \<and> Reason row = rsn"
  by (auto simp: status_entry_def split: if_splits)

lemma place_order_frame:
  assumes "place_order logtime br m s stock a p = Inr s'"
  shows "familyreturns s' = familyreturns s \<and> closeprices s' = closeprices s \<and> cash s' = cash s
     \<and> tradecapital s' = tradecapital s \<and> buyskip_file s' = buyskip_file s"
  using assms by (auto simp: place_order_def split: if_splits sum.splits)

lemma place_order_lists:
  assumes "place_order logtime br m s stock a p = Inr s'" and "stock \<notin> set (skiplist s)"
  shows "if ordershares p > 0
         then skiplist s' = skiplist s
            \<and> boughtlist s' = (if submit_raises br then boughtlist s else boughtlist s @ [stock])
         else skiplist s' = skiplist s @ [stock] \<and> boughtlist s' = boughtlist s"
  using assms by (auto simp: place_order_def split: if_splits sum.splits)

lemma place_order_status:
  assumes "place_order logtime br m s stock a p = Inr s'" and "stock \<notin> set (skiplist s)"
  shows "\<exists>row. status s' = AList.update stock row (status s)
     \<and> Cash row = cash s \<and> TradeCapital row = tradecapital s"
  using assms by (auto simp: place_order_def split: if_splits sum.splits dest: status_entry_row)

lemma iteration_cases:
  assumes "iteration logtime br d s stock a = Inr s'"
  shows "s' = s \<or> (stock \<notin> set (boughtlist s) \<and> stock \<notin> set (skiplist s)
     \<and> (\<exists>p. risk_engine br d s stock a = Inr (Some p)
           \<and> place_order logtime br (cash s * maxriskratio * d) s stock a p = Inr s'))"
  using assms by (auto simp: iteration_def evaluate_def split: if_splits sum.splits option.splits)

lemma iteration_guarded:
  assumes "iteration logtime br d s stock a = Inr s'"
    and "stock \<notin> set (boughtlist s)" and "stock \<notin> set (skiplist s)"
    and "risk_engine br d s stock a = Inr (Some p)"
  shows "place_order logtime br (cash s * maxriskratio * d) s stock a p = Inr s'"
  using assms by (simp add: iteration_def evaluate_def)

lemma iteration_lists:
  assumes "iteration logtime br d s stock a = Inr s'"
  shows "(boughtlist s' = boughtlist s \<and> skiplist s' = skiplist s)
     \<or> (stock \<notin> set (boughtlist s) \<and> stock \<notin> set (skiplist s)
        \<and> ((boughtlist s' = boughtlist s @ [stock] \<and> skiplist s' = skiplist s)
           \<or> (boughtlist s' = boughtlist s \<and> skiplist s' = skiplist s @ [stock])))"
proof -
  from iteration_cases [OF assms] show ?thesis
  proof
    assume "s' = s" then show ?thesis by simp
  next
    assume h: "stock \<notin> set (boughtlist s) \<and> stock \<notin> set (skiplist s)
     \<and> (\<exists>p. risk_engine br d s stock a = Inr (Some p)
           \<and> place_order logtime br (cash s * maxriskratio * d) s stock a p = Inr s')"
    then obtain p where po: "place_order logtime br (cash s * maxriskratio * d) s stock a p = Inr s'"
      by blast
    from h have ns: "stock \<notin> set (skiplist s)" by blast
    from place_order_lists [OF po ns] h show ?thesis
      by (auto split: if_splits)
  qed
qed

lemma iteration_frame:
  assumes "iteration logtime br d s stock a = Inr s'"
  shows "familyreturns s' = familyreturns s \<and> closeprices s' = closeprices s \<and> cash s' = cash s
     \<and> tradecapital s' = tradecapital s \<and> buyskip_file s' = buyskip_file s"
  using iteration_cases [OF assms] place_order_frame by blast

lemma iteration_status:
  assumes "iteration logtime br d s stock a = Inr s'"
  shows "status s' = status s \<or> (\<exists>row. status s' = AList.update stock row (status s)
     \<and> Cash row = cash s \<and> TradeCapital row = tradecapital s)"
  using iteration_cases [OF assms] place_order_status by blast

lemma write_buyskip_fields:
  "familyreturns (write_buyskip s) = familyreturns s \<and> closeprices (write_buyskip s) = closeprices s
   \<and> cash (write_buyskip s) = cash s \<and> tradecapital (write_buyskip s) = tradecapital s
   \<and> boughtlist (write_buyskip s) = boughtlist s \<and> skiplist (write_buyskip s) = skiplist s
   \<and> status (write_buyskip s) = status s
   \<and> buyskip_file (write_buyskip s) = Some (status_json (status s))"
  by (simp add: write_buyskip_def)

lemma ten_held_engine:
  "ordercount br \<ge> 10 \<Longrightarrow> risk_engine br d s stock a = Inr r \<Longrightarrow> r = None"
  by (auto simp: risk_engine_def Let_def split: option.splits if_splits sum.splits)

lemma ten_held_pass:
  "ordercount br \<ge> 10 \<Longrightarrow> iteration logtime br d s stock a = Inr s' \<Longrightarrow> s' = s"
  by (auto simp: iteration_def evaluate_def split: if_splits sum.splits option.splits
      dest: ten_held_engine)

lemma tick_snapshot:
  "tick logtime env acts s = Inr s' \<Longrightarrow> buyskip_file s' = Some (status_json (status s'))"
  by (auto simp: tick_def write_buyskip_def split: sum.splits)

subsection \<open>Reachable states\<close>

lemma reaches_trans:
  "reaches s s' \<Longrightarrow> reaches s0 s \<Longrightarrow> reaches s0 s'"
  by (induction rule: reaches.induct) (auto intro: reaches.intros)

lemma for_stocks_reaches:
  "for_stocks logtime env d acts s = Inr s' \<Longrightarrow> reaches s0 s \<Longrightarrow> reaches s0 s'"
proof (induction acts arbitrary: s)
  case Nil
  then show ?case by simp
next
  case (Cons x acts)
  obtain stock a where x: "x = (stock, a)" by (cases x)
  from Cons.prems(1) obtain s1 where
    s1: "iteration logtime (env stock) d s stock a = Inr s1" and
    rest: "for_stocks logtime env d acts s1 = Inr s'"
    by (auto simp: x split: sum.splits)
  from Cons.prems(2) s1 have "reaches s0 s1" by (rule reaches.pass)
  with Cons.IH rest show ?case by blast
qed

lemma tick_reaches:
  assumes "tick logtime env acts s = Inr s'" and "reaches s0 s"
  shows "reaches s0 s'"
proof -
  from assms(1) obtain s1 where
    s1: "for_stocks logtime env (bandwagon (inboundcount s acts)) acts s = Inr s1" and
    w: "s' = write_buyskip s1"
    by (auto simp: tick_def split: sum.splits)
  from for_stocks_reaches [OF s1 assms(2)] show ?thesis
    unfolding w by (rule reaches.snapshot)
qed

lemma reaches_disjoint:
  "reaches s s' \<Longrightarrow> set (boughtlist s) \<inter> set (skiplist s) = {}
     \<Longrightarrow> set (boughtlist s') \<inter> set (skiplist s') = {}"
proof (induction rule: reaches.induct)
  case (here s)
  then show ?case by simp
next
  case (pass s s' logtime br d stock a s'')
  from pass.IH pass.prems have d: "set (boughtlist s') \<inter> set (skiplist s') = {}" by simp
  from iteration_lists [OF pass.hyps(2)] d show ?case by auto
next
  case (snapshot s s')
  then show ?case by (simp add: write_buyskip_fields)
qed

lemma reaches_cash:
  "reaches s s' \<Longrightarrow> cash s' = cash s \<and> tradecapital s' = tradecapital s"
proof (induction rule: reaches.induct)
  case (here s)
  then show ?case by simp
next
  case (pass s s' logtime br d stock a s'')
  with iteration_frame [OF pass.hyps(2)] show ?case by simp
next
  case (snapshot s s')
  then show ?case by (simp add: write_buyskip_fields)
qed

lemma set_update_subset: "set (AList.update k v al) \<subseteq> insert (k, v) (set al)"
  by (induction al) auto

lemma reaches_rows:
  "reaches s s' \<Longrightarrow> \<forall>(t, row) \<in> set (status s). Cash row = cash s \<and> TradeCapital row = tradecapital s
     \<Longrightarrow> \<forall>(t, row) \<in> set (status s'). Cash row = cash s \<and> TradeCapital row = tradecapital s"
proof (induction rule: reaches.induct)
  case (here s)
  then show ?case by simp
next
  case (pass s s' logtime br d stock a s'')
  from pass.IH pass.prems
  have ih: "\<forall>(t, row) \<in> set (status s'). Cash row = cash s \<and> TradeCapital row = tradecapital s" by simp
  from reaches_cash [OF pass.hyps(1)] have c: "cash s' = cash s" "tradecapital s' = tradecapital s"
    by simp_all
  from iteration_status [OF pass.hyps(2)] show ?case
  proof
    assume "status s'' = status s'" with ih show ?thesis by simp
  next
    assume "\<exists>row. status s'' = AList.update stock row (status s')
       \<and> Cash row = cash s' \<and> TradeCapital row = tradecapital s'"
    then obtain row where u: "status s'' = AList.update stock row (status s')"
      and r: "Cash row = cash s" "TradeCapital row = tradecapital s"
      using c by auto
    show ?thesis
      unfolding u using set_update_subset [of stock row "status s'"] ih r by auto
  qed
next
  case (snapshot s s')
  then show ?case by (simp add: write_buyskip_fields)
qed

lemma reaches_skiplist_keeps:
  "reaches s s' \<Longrightarrow> stock \<in> set (skiplist s)
     \<Longrightarrow> stock \<in> set (skiplist s') \<and> count_list (skiplist s') stock = count_list (skiplist s) stock"
proof (induction rule: reaches.induct)
  case (here s)
  then show ?case by simp
next
  case (pass s s' logtime br d stock' a s'')
  from pass.IH pass.prems have ih: "stock \<in> set (skiplist s')"
    "count_list (skiplist s') stock = count_list (skiplist s) stock" by simp_all
  from iteration_lists [OF pass.hyps(2)] ih show ?case by auto
next
  case (snapshot s s')
  then show ?case by (simp add: write_buyskip_fields)
qed

subsection \<open>The reason of a skip\<close>

lemma risk_engine_Some:
  assumes "risk_engine br d s stock a = Inr (Some p)"
  shows "\<exists>yc b. closeprices s stock = Some yc \<and> price a \<noteq> 0 \<and> ordercount br < 10
     \<and> reality_check (familyreturns s) a (py_int (tradecapital s / price a)) = Inr b
     \<and> risk_block (cash s * maxriskratio * d) yc a b = Inr p"
  using assms
  by (auto simp: risk_engine_def Let_def split: option.splits if_splits sum.splits)

lemma reality_check_reason:
  assumes "reality_check fr a n = Inr b"
  shows "b_skipreason b =
     (if stop_loss_hit (strategyfamily a) (b_floorprice b) (recentlow a)
      then ''Proposed stop-loss price already hit today'' else ''Unknown'')"
  using assms by (auto simp: reality_check_def Let_def split: option.splits)

lemma risk_block_reason:
  assumes "risk_block m yc a b = Inr p"
  shows "skipreason p =
     (if bad_trade (traderet p) (traderiskpct p) then ''Risk outweighs reward''
      else if return_met (price a) yc (traderet p)
           then ''The potential return has already been met today.''
           else b_skipreason b)"
  using assms by (auto simp: risk_block_def Let_def split: if_splits)

subsection \<open>The sample session, evaluated\<close>

lemmas demo_defs = demo_account_def demo_session_def demo_closes_def demo_returns_def momentum_action_def
  steady_action_def dip_action_def three_held_def three_held_refusing_def ten_held_def
  calm_broker_def crowded_broker_def momentum_row_def steady_row_def dip_row_def skipped_session_def
  traded_session_def dipped_session_def refused_session_def momentum_pricing_def
  steady_pricing_def dip_pricing_def dip_baseline_def

lemmas engine_defs = risk_engine_def reality_check_def risk_block_def stop_loss_hit_def
  return_met_def bad_trade_def py_int_def maxriskratio_def

lemmas pass_defs = iteration_def evaluate_def place_order_def status_entry_def default_reason_def

lemma start_demo: "start_session demo_account demo_returns demo_closes = Inr demo_session"
  by (simp add: start_session_def demo_defs)

lemma pass_AAA: "iteration ''t0'' three_held 1 demo_session ''AAA'' momentum_action = Inr skipped_session"
  by (simp add: pass_defs engine_defs demo_defs)

lemma pass_BBB: "iteration ''t0'' three_held 1 skipped_session ''BBB'' steady_action = Inr traded_session"
  by (simp add: pass_defs engine_defs demo_defs)

lemma pass_CCC: "iteration ''t0'' three_held 1 demo_session ''CCC'' dip_action = Inr dipped_session"
  by (simp add: pass_defs engine_defs demo_defs)

lemma pass_BBB_refused:
  "iteration ''t0'' three_held_refusing 1 demo_session ''BBB'' steady_action = Inr refused_session"
  by (simp add: pass_defs engine_defs demo_defs)

lemma pass_AAA_ten: "iteration ''t0'' ten_held 1 demo_session ''AAA'' momentum_action = Inr demo_session"
  by (simp add: pass_defs engine_defs demo_defs)

lemma tick_AAA: "tick ''t0'' calm_broker [(''AAA'', momentum_action)] demo_session
   = Inr (skipped_session\<lparr>buyskip_file := Some (status_json (status skipped_session))\<rparr>)"
proof -
  have d: "bandwagon (inboundcount demo_session [(''AAA'', momentum_action)]) = 1"
    by (simp add: bandwagon_def inboundcount_def demo_session_def)
  show ?thesis
    by (simp add: tick_def d calm_broker_def pass_AAA write_buyskip_def)
qed

lemma engine_AAA: "risk_engine three_held 1 demo_session ''AAA'' momentum_action = Inr (Some momentum_pricing)"
  by (simp add: engine_defs demo_defs)

lemma engine_BBB: "risk_engine three_held_refusing 1 demo_session ''BBB'' steady_action = Inr (Some steady_pricing)"
  by (simp add: engine_defs demo_defs)

lemma engine_CCC: "risk_engine three_held 1 demo_session ''CCC'' dip_action = Inr (Some dip_pricing)"
  by (simp add: engine_defs demo_defs)

lemma baseline_CCC:
  "reality_check (familyreturns demo_session) dip_action
     (py_int (tradecapital demo_session / price dip_action)) = Inr dip_baseline"
  by (simp add: engine_defs demo_defs)

lemma reaches_traded: "reaches demo_session traded_session"
proof -
  have "reaches demo_session demo_session" by (rule reaches.here)
  then have "reaches demo_session skipped_session" using pass_AAA by (rule reaches.pass)
  then show ?thesis using pass_BBB by (rule reaches.pass)
qed

lemma reaches_skipped_traded: "reaches skipped_session traded_session"
proof -
  have "reaches skipped_session skipped_session" by (rule reaches.here)
  then show ?thesis using pass_BBB by (rule reaches.pass)
qed

subsection \<open>The worked example of the specification\<close>

text \<open>
  C1, as the code has it. With price 100, recent high 105, recent low 95, yesterday's close
  98, family Momentum with an average return of 0.02, cash 50000, trade capital 5000, a
  discount of 1 and three held positions: the share count is first \<open>int(5000/100) = 50\<close>;
  the family return is 0.016, the floor percentage 0.008, the floor price 99.2 and the
  ceiling 102, not pulled down; the floor price is above the recent low, so the stop-loss
  rule fires at line 199 and the share count is 0 from there on; the floor is not moved;
  the risk amount is therefore 0, the risk percentage 0.008, the buy limit 100.1 and the
  trade return 19/1001 (about 0.01898); the rule of line 220 fires as well and the rule of
  line 225 does not. The stock is skipped with 0 shares and the reason of line 222.
\<close>

theorem momentum_example:
  "start_session demo_account demo_returns demo_closes = Inr demo_session
   \<and> cash demo_session = 50000 \<and> tradecapital demo_session = 5000
   \<and> py_int (tradecapital demo_session / price momentum_action) = 50
   \<and> reality_check (familyreturns demo_session) momentum_action 50 =
       Inr \<lparr>b_skipreason = ''Proposed stop-loss price already hit today'', b_ordershares = 0,
            b_familyret = 0.016, b_floorpct = 0.008, b_floorprice = 99.2,
            b_ceilingprice = 102\<rparr>
   \<and> risk_engine three_held 1 demo_session ''AAA'' momentum_action =
       Inr (Some \<lparr>skipreason = ''The potential return has already been met today.'',
                  ordershares = 0, familyret = 0.016, floorprice = 99.2, ceilingprice = 102,
                  buylimit = 100.1, traderiskamt = 0, traderiskpct = 0.008,
                  traderet = 19 / 1001\<rparr>)
   \<and> return_met 100 98 (19 / 1001) \<and> \<not> bad_trade (19 / 1001) 0.008
   \<and> iteration ''t0'' three_held 1 demo_session ''AAA'' momentum_action = Inr skipped_session
   \<and> skiplist skipped_session = [''AAA'']
   \<and> map_of (status skipped_session) ''AAA'' = Some momentum_row
   \<and> OrderShares momentum_row = 0
   \<and> Decision momentum_row = ''skip''
   \<and> Reason momentum_row =
       ''The potential return has already been met today.; not eligible for retry.''"
proof -
  have 1: "start_session demo_account demo_returns demo_closes = Inr demo_session"
    by (rule start_demo)
  have 2: "cash demo_session = 50000 \<and> tradecapital demo_session = 5000"
    by (simp add: demo_defs)
  have 3: "py_int (tradecapital demo_session / price momentum_action) = 50"
    by (simp add: py_int_def demo_defs)
  have 4: "reality_check (familyreturns demo_session) momentum_action 50 =
       Inr \<lparr>b_skipreason = ''Proposed stop-loss price already hit today'', b_ordershares = 0,
            b_familyret = 0.016, b_floorpct = 0.008, b_floorprice = 99.2,
            b_ceilingprice = 102\<rparr>"
    by (simp add: engine_defs demo_defs)
  have 5: "risk_engine three_held 1 demo_session ''AAA'' momentum_action =
       Inr (Some \<lparr>skipreason = ''The potential return has already been met today.'',
                  ordershares = 0, familyret = 0.016, floorprice = 99.2, ceilingprice = 102,
                  buylimit = 100.1, traderiskamt = 0, traderiskpct = 0.008,
                  traderet = 19 / 1001\<rparr>)"
    by (simp add: engine_defs demo_defs)
  have 6: "return_met 100 98 (19 / 1001) \<and> \<not> bad_trade (19 / 1001) 0.008"
    by (simp add: return_met_def bad_trade_def)
  have 7: "skiplist skipped_session = [''AAA'']
   \<and> map_of (status skipped_session) ''AAA'' = Some momentum_row
   \<and> OrderShares momentum_row = 0
   \<and> Decision momentum_row = ''skip''
   \<and> Reason momentum_row =
       ''The potential return has already been met today.; not eligible for retry.''"
    by (simp add: demo_defs)
  from 1 2 3 4 5 6 7 pass_AAA show ?thesis by blast
qed

text \<open>
  C1 as the specification states it has no stop-loss rejection and a risk amount of 40 for
  this input. The pricing that the code returns is not that one, and the stop-loss
  condition holds of the floor price 99.2 and the recent low 95.
\<close>

theorem momentum_example_counterexample:
  "risk_engine three_held 1 demo_session ''AAA'' momentum_action \<noteq>
       Inr (Some \<lparr>skipreason = ''The potential return has already been met today.'',
                  ordershares = 0, familyret = 0.016, floorprice = 99.2, ceilingprice = 102,
                  buylimit = 100.1, traderiskamt = 40, traderiskpct = 0.008,
                  traderet = 19 / 1001\<rparr>)
   \<and> stop_loss_hit (strategyfamily momentum_action) 99.2 (recentlow momentum_action)"
  by (simp add: engine_AAA) (simp add: demo_defs stop_loss_hit_def)

subsection \<open>Ten held positions\<close>

text \<open>
  C3. With ten held positions and the other inputs of the worked example, the pricing block
  is not run and assigns no skip reason, and the pass leaves the session as it was: the
  stock is not appended to \<open>skiplist\<close> and no status row is written. The assignment of
  the reason \<open>'Too many existing positions'\<close> at line 312 sits inside
  \<open>if ordercount < 10\<close> and is never reached.
\<close>

theorem ten_positions_no_decision:
  "risk_engine ten_held 1 demo_session ''AAA'' momentum_action = Inr None
   \<and> iteration ''t0'' ten_held 1 demo_session ''AAA'' momentum_action = Inr demo_session
   \<and> skiplist demo_session = [] \<and> status demo_session = []"
  by (simp add: pass_AAA_ten) (simp add: engine_defs demo_defs)

subsection \<open>Which reason a skip reports\<close>

text \<open>
  C4, as the code has it. When a stock in neither list is priced with fewer than ten held
  positions and ends with no share to buy, its status row says skip and its reason is that
  of the last rule that fired, in the order of the steps: risk outweighs reward (line 225)
  before the return already met (line 220) before the stop-loss already hit (line 199),
  each rule overwriting the reason of the ones before. When no rule fired the reason is
  \<open>'Stock is too expensive or unable to buy shares.'\<close> for a share count of 0, and stays
  \<open>'Unknown'\<close> for a negative one. The row's text ends with
  \<open>'; not eligible for retry.'\<close>.
\<close>

theorem skip_reason_last_rule:
  assumes guard: "stock \<notin> set (boughtlist s)" "stock \<notin> set (skiplist s)"
    and yc: "closeprices s stock = Some yesterdayclose"
    and b: "reality_check (familyreturns s) a (py_int (tradecapital s / price a)) = Inr b"
    and p: "risk_engine br d s stock a = Inr (Some p)"
    and skip: "ordershares p \<le> 0"
    and run: "iteration logtime br d s stock a = Inr s'"
  shows "\<exists>row. map_of (status s') stock = Some row \<and> Decision row = ''skip''
     \<and> Reason row =
         (if bad_trade (traderet p) (traderiskpct p) then ''Risk outweighs reward''
          else if return_met (price a) yesterdayclose (traderet p)
               then ''The potential return has already been met today.''
          else if stop_loss_hit (strategyfamily a) (b_floorprice b) (recentlow a)
               then ''Proposed stop-loss price already hit today''
          else if ordershares p = 0 then ''Stock is too expensive or unable to buy shares.''
          else ''Unknown'') @ ''; not eligible for retry.''"
proof -
  from risk_engine_Some [OF p] yc b have oc: "ordercount br < 10"
    and rb: "risk_block (cash s * maxriskratio * d) yesterdayclose a b = Inr p"
    by auto
  have r: "skipreason p =
     (if bad_trade (traderet p) (traderiskpct p) then ''Risk outweighs reward''
      else if return_met (price a) yesterdayclose (traderet p)
           then ''The potential return has already been met today.''
      else if stop_loss_hit (strategyfamily a) (b_floorprice b) (recentlow a)
           then ''Proposed stop-loss price already hit today'' else ''Unknown'')"
    using risk_block_reason [OF rb] reality_check_reason [OF b] by simp
  have dr: "default_reason s br stock p =
     (if ordershares p = 0 \<and> skipreason p = ''Unknown''
      then ''Stock is too expensive or unable to buy shares.'' else skipreason p)"
    using guard(1) oc by (simp add: default_reason_def)
  from iteration_guarded [OF run guard p]
  have po: "place_order logtime br (cash s * maxriskratio * d) s stock a p = Inr s'" .
  from po skip guard(2) obtain row where
    row: "status_entry logtime stock s a (cash s * maxriskratio * d) p ''skip''
            (default_reason s br stock p @ ''; not eligible for retry.'') = Inr row"
    and st: "status s' = AList.update stock row (status s)"
    by (auto simp: place_order_def split: if_splits sum.splits)
  from status_entry_row [OF row] have dec: "Decision row = ''skip''"
    and rsn: "Reason row = default_reason s br stock p @ ''; not eligible for retry.''"
    by simp_all
  have m: "map_of (status s') stock = Some row"
    by (simp add: st update_conv')
  have "Reason row =
         (if bad_trade (traderet p) (traderiskpct p) then ''Risk outweighs reward''
          else if return_met (price a) yesterdayclose (traderet p)
               then ''The potential return has already been met today.''
          else if stop_loss_hit (strategyfamily a) (b_floorprice b) (recentlow a)
               then ''Proposed stop-loss price already hit today''
          else if ordershares p = 0 then ''Stock is too expensive or unable to buy shares.''
          else ''Unknown'') @ ''; not eligible for retry.''"
    unfolding rsn dr r by simp
  with m dec show ?thesis by blast
qed

theorem skip_reason_last_rule_witness:
  "risk_engine three_held 1 demo_session ''CCC'' dip_action = Inr (Some dip_pricing)
   \<and> ordershares dip_pricing \<le> 0
   \<and> iteration ''t0'' three_held 1 demo_session ''CCC'' dip_action = Inr dipped_session
   \<and> stop_loss_hit (strategyfamily dip_action) (b_floorprice dip_baseline) (recentlow dip_action)
   \<and> return_met (price dip_action) 49 (traderet dip_pricing)
   \<and> (\<exists>row. map_of (status dipped_session) ''CCC'' = Some row \<and> Decision row = ''skip''
        \<and> Reason row =
            ''The potential return has already been met today.; not eligible for retry.'')"
proof -
  have g: "''CCC'' \<notin> set (boughtlist demo_session)" "''CCC'' \<notin> set (skiplist demo_session)"
    by (simp_all add: demo_defs)
  have yc: "closeprices demo_session ''CCC'' = Some 49"
    by (simp add: demo_defs)
  have le: "ordershares dip_pricing \<le> 0"
    by (simp add: demo_defs)
  have hit: "stop_loss_hit (strategyfamily dip_action) (b_floorprice dip_baseline) (recentlow dip_action)"
    by (simp add: stop_loss_hit_def demo_defs)
  have met: "return_met (price dip_action) 49 (traderet dip_pricing)"
    by (simp add: return_met_def demo_defs)
  have nb: "\<not> bad_trade (traderet dip_pricing) (traderiskpct dip_pricing)"
    by (simp add: bad_trade_def demo_defs)
  from skip_reason_last_rule [OF g yc baseline_CCC engine_CCC le pass_CCC]
  have "\<exists>row. map_of (status dipped_session) ''CCC'' = Some row \<and> Decision row = ''skip''
        \<and> Reason row =
            ''The potential return has already been met today.; not eligible for retry.''"
    by (simp add: met nb)
  with engine_CCC le pass_CCC hit met show ?thesis by blast
qed

text \<open>
  C4 as the specification states it, with the first rule's reason, fails on the entry
  \<open>CCC\<close>: the
  stop-loss rule is the first to fire (its reason is the one held after line 201), the rule
  of line 220 fires later, and the reason reported is the later one.
\<close>

theorem skip_reason_first_counterexample:
  "reality_check (familyreturns demo_session) dip_action
       (py_int (tradecapital demo_session / price dip_action)) =
       Inr \<lparr>b_skipreason = ''Proposed stop-loss price already hit today'', b_ordershares = 0,
            b_familyret = 0.016, b_floorpct = 0.008, b_floorprice = 49.6,
            b_ceilingprice = 51\<rparr>
   \<and> iteration ''t0'' three_held 1 demo_session ''CCC'' dip_action = Inr dipped_session
   \<and> map_of (status dipped_session) ''CCC'' = Some dip_row
   \<and> Reason dip_row =
       ''The potential return has already been met today.; not eligible for retry.''
   \<and> Reason dip_row \<noteq> ''Proposed stop-loss price already hit today; not eligible for retry.''"
  by (simp add: pass_CCC) (simp add: engine_defs demo_defs)

subsection \<open>The snapshot file\<close>

text \<open>
  C6. After a tick that skips \<open>AAA\<close>, the snapshot file holds the dump of the \<open>status\<close>
  dictionary, one full status row per ticker, and not the record of the two lists:
  line 352 builds \<open>{'buy': boughtlist, 'skip': skiplist}\<close> and line 356 replaces it by
  \<open>json.dumps(status, indent=4)\<close> before anything is written.
\<close>

theorem snapshot_holds_status:
  "tick ''t0'' calm_broker [(''AAA'', momentum_action)] demo_session =
       Inr (skipped_session\<lparr>buyskip_file := Some (status_json (status skipped_session))\<rparr>)
   \<and> boughtlist skipped_session = [] \<and> skiplist skipped_session = [''AAA'']
   \<and> status_json (status skipped_session) = JObj [(''AAA'', row_json momentum_row)]
   \<and> status_json (status skipped_session)
       \<noteq> buyskip_json (boughtlist skipped_session) (skiplist skipped_session)"
  by (simp add: tick_AAA) (simp add: demo_defs status_json_def buyskip_json_def)

subsection \<open>Failed submissions and skips\<close>

text \<open>
  What the code does with fewer than ten held positions. Take a stock in neither list that
  the pricing block has priced, which it only does below ten held positions. If it has
  shares to buy and the submission of the bracket order raises, both lists are left as they
  were, the stock is in neither, and the next pass for it evaluates it again. If it has no
  share to buy, the stock is appended to \<open>skiplist\<close>, and in every state the session
  reaches afterwards it occurs in \<open>skiplist\<close> exactly once.
\<close>

theorem failed_order_and_skip_membership:
  assumes guard: "stock \<notin> set (boughtlist s)" "stock \<notin> set (skiplist s)"
    and p: "risk_engine br d s stock a = Inr (Some p)"
    and run: "iteration logtime br d s stock a = Inr s'"
  shows "(ordershares p > 0 \<and> submit_raises br \<longrightarrow>
            boughtlist s' = boughtlist s \<and> skiplist s' = skiplist s
            \<and> stock \<notin> set (boughtlist s') \<and> stock \<notin> set (skiplist s')
            \<and> (\<forall>logtime' br' d' a'. iteration logtime' br' d' s' stock a'
                  = evaluate logtime' br' d' s' stock a'))
     \<and> (ordershares p \<le> 0 \<longrightarrow>
            skiplist s' = skiplist s @ [stock] \<and> boughtlist s' = boughtlist s
            \<and> (\<forall>s''. reaches s' s'' \<longrightarrow> count_list (skiplist s'') stock = 1))"
proof -
  from iteration_guarded [OF run guard p]
  have po: "place_order logtime br (cash s * maxriskratio * d) s stock a p = Inr s'" .
  note l = place_order_lists [OF po guard(2)]
  have a: "ordershares p > 0 \<and> submit_raises br \<longrightarrow>
            boughtlist s' = boughtlist s \<and> skiplist s' = skiplist s
            \<and> stock \<notin> set (boughtlist s') \<and> stock \<notin> set (skiplist s')
            \<and> (\<forall>logtime' br' d' a'. iteration logtime' br' d' s' stock a'
                  = evaluate logtime' br' d' s' stock a')"
    using l guard by (simp add: iteration_def)
  have b: "ordershares p \<le> 0 \<longrightarrow>
            skiplist s' = skiplist s @ [stock] \<and> boughtlist s' = boughtlist s
            \<and> (\<forall>s''. reaches s' s'' \<longrightarrow> count_list (skiplist s'') stock = 1)"
  proof
    assume le: "ordershares p \<le> 0"
    with l have sk: "skiplist s' = skiplist s @ [stock]" and bo: "boughtlist s' = boughtlist s"
      by simp_all
    have one: "count_list (skiplist s') stock = 1"
      using guard(2) by (simp add: sk)
    have mem: "stock \<in> set (skiplist s')" by (simp add: sk)
    have "\<forall>s''. reaches s' s'' \<longrightarrow> count_list (skiplist s'') stock = 1"
      using reaches_skiplist_keeps [OF _ mem] one by simp
    with sk bo show "skiplist s' = skiplist s @ [stock] \<and> boughtlist s' = boughtlist s
            \<and> (\<forall>s''. reaches s' s'' \<longrightarrow> count_list (skiplist s'') stock = 1)"
      by blast
  qed
  from a b show ?thesis by blast
qed

theorem failed_order_and_skip_membership_witness:
  "risk_engine three_held_refusing 1 demo_session ''BBB'' steady_action = Inr (Some steady_pricing)
   \<and> ordershares steady_pricing > 0 \<and> submit_raises three_held_refusing
   \<and> iteration ''t0'' three_held_refusing 1 demo_session ''BBB'' steady_action = Inr refused_session
   \<and> boughtlist refused_session = [] \<and> skiplist refused_session = []
   \<and> iteration ''t1'' three_held 1 refused_session ''BBB'' steady_action
       = evaluate ''t1'' three_held 1 refused_session ''BBB'' steady_action
   \<and> risk_engine three_held 1 demo_session ''AAA'' momentum_action = Inr (Some momentum_pricing)
   \<and> ordershares momentum_pricing \<le> 0
   \<and> iteration ''t0'' three_held 1 demo_session ''AAA'' momentum_action = Inr skipped_session
   \<and> skiplist skipped_session = [''AAA'']
   \<and> reaches skipped_session traded_session
   \<and> count_list (skiplist traded_session) ''AAA'' = 1"
proof -
  have gB: "''BBB'' \<notin> set (boughtlist demo_session)" "''BBB'' \<notin> set (skiplist demo_session)"
    by (simp_all add: demo_defs)
  have gA: "''AAA'' \<notin> set (boughtlist demo_session)" "''AAA'' \<notin> set (skiplist demo_session)"
    by (simp_all add: demo_defs)
  have pos: "ordershares steady_pricing > 0 \<and> submit_raises three_held_refusing"
    by (simp add: demo_defs)
  have le: "ordershares momentum_pricing \<le> 0"
    by (simp add: demo_defs)
  have e: "boughtlist demo_session = [] \<and> skiplist demo_session = []"
    by (simp add: demo_defs)
  from failed_order_and_skip_membership [OF gB engine_BBB pass_BBB_refused] pos e
  have r1: "boughtlist refused_session = [] \<and> skiplist refused_session = []
     \<and> iteration ''t1'' three_held 1 refused_session ''BBB'' steady_action
       = evaluate ''t1'' three_held 1 refused_session ''BBB'' steady_action"
    by simp
  from failed_order_and_skip_membership [OF gA engine_AAA pass_AAA] le e reaches_skipped_traded
  have r2: "skiplist skipped_session = [''AAA'']
     \<and> count_list (skiplist traded_session) ''AAA'' = 1"
    by simp
  from engine_BBB pos pass_BBB_refused r1 engine_AAA le pass_AAA r2 reaches_skipped_traded
  show ?thesis by blast
qed

lemma tick_AAA_ten:
  "tick ''t0'' crowded_broker [(''AAA'', momentum_action)] demo_session =
     Inr (demo_session\<lparr>buyskip_file := Some (JObj [])\<rparr>)"
proof -
  have d: "bandwagon (inboundcount demo_session [(''AAA'', momentum_action)]) = 1"
    by (simp add: bandwagon_def inboundcount_def demo_session_def)
  have w: "write_buyskip demo_session = demo_session\<lparr>buyskip_file := Some (JObj [])\<rparr>"
    by (simp add: write_buyskip_def status_json_def demo_session_def)
  show ?thesis
    by (simp add: tick_def d crowded_broker_def pass_AAA_ten w)
qed

text \<open>
  C7. A failed submission leaves the ticker in neither list, and a skip decided below ten
  held positions appends it to \<open>skiplist\<close> once, as shown above. The skip of a stock
  because ten positions are held is the one that goes astray: after a whole tick in which
  \<open>AAA\<close> is met with ten held positions, the pricing block has returned nothing, and
  \<open>AAA\<close> is in neither list, so it occurs in \<open>skiplist\<close> zero times and not once. The
  append of line 317, like the reason of line 312, sits inside \<open>if ordercount < 10\<close>.
\<close>

theorem ten_positions_not_skipped:
  "risk_engine ten_held 1 demo_session ''AAA'' momentum_action = Inr None
   \<and> tick ''t0'' crowded_broker [(''AAA'', momentum_action)] demo_session =
       Inr (demo_session\<lparr>buyskip_file := Some (JObj [])\<rparr>)
   \<and> boughtlist (demo_session\<lparr>buyskip_file := Some (JObj [])\<rparr>) = []
   \<and> skiplist (demo_session\<lparr>buyskip_file := Some (JObj [])\<rparr>) = []
   \<and> count_list (skiplist (demo_session\<lparr>buyskip_file := Some (JObj [])\<rparr>)) ''AAA'' = 0"
  by (simp add: tick_AAA_ten) (simp add: engine_defs demo_defs)

subsection \<open>The two lists are disjoint\<close>

text \<open>
  C8. In every state that a session reaches from its start, in the middle of a tick or
  between ticks, no ticker is in both \<open>boughtlist\<close> and \<open>skiplist\<close>.
\<close>

theorem bought_skip_disjoint:
  assumes "start_session acct fr cp = Inr s0" and "reaches s0 s"
  shows "set (boughtlist s) \<inter> set (skiplist s) = {}"
proof -
  from assms(1) have "set (boughtlist s0) \<inter> set (skiplist s0) = {}"
    by (auto simp: start_session_def Let_def split: if_splits)
  with reaches_disjoint [OF assms(2)] show ?thesis by simp
qed

theorem bought_skip_disjoint_witness:
  "start_session demo_account demo_returns demo_closes = Inr demo_session
   \<and> reaches demo_session traded_session
   \<and> boughtlist traded_session = [''BBB''] \<and> skiplist traded_session = [''AAA'']
   \<and> set (boughtlist traded_session) \<inter> set (skiplist traded_session) = {}"
proof -
  have l: "boughtlist traded_session = [''BBB''] \<and> skiplist traded_session = [''AAA'']"
    by (simp add: demo_defs)
  from bought_skip_disjoint [OF start_demo reaches_traded] start_demo reaches_traded l
  show ?thesis by blast
qed

subsection \<open>The cash figure\<close>

text \<open>
  C10. In every state that a session reaches from its start, the cash figure is the
  account's buying power divided by its multiplier, less 25001 (the account's own cash
  attribute plays no part), and the trade capital is a tenth of it: both are set by
  \<open>start_session\<close> before the loop and no pass changes them. Every status row records
  these two values as the cash and the trade capital its pricing used.
\<close>

theorem cash_fixed_for_session:
  assumes "start_session acct fr cp = Inr s0" and "reaches s0 s"
  shows "cash s = buying_power acct / multiplier acct - 25001
     \<and> tradecapital s = (buying_power acct / multiplier acct - 25001) / 10
     \<and> (\<forall>(t, row) \<in> set (status s).
          Cash row = buying_power acct / multiplier acct - 25001
          \<and> TradeCapital row = (buying_power acct / multiplier acct - 25001) / 10)"
proof -
  from assms(1) have c0: "cash s0 = buying_power acct / multiplier acct - 25001"
    and t0: "tradecapital s0 = (buying_power acct / multiplier acct - 25001) / 10"
    and st0: "status s0 = []"
    by (auto simp: start_session_def Let_def split: if_splits)
  from reaches_cash [OF assms(2)] c0 t0
  have c: "cash s = buying_power acct / multiplier acct - 25001"
    and t: "tradecapital s = (buying_power acct / multiplier acct - 25001) / 10"
    by simp_all
  from st0 have "\<forall>(t, row) \<in> set (status s0). Cash row = cash s0 \<and> TradeCapital row = tradecapital s0"
    by simp
  from reaches_rows [OF assms(2) this] c0 t0
  have "\<forall>(t, row) \<in> set (status s).
          Cash row = buying_power acct / multiplier acct - 25001
          \<and> TradeCapital row = (buying_power acct / multiplier acct - 25001) / 10"
    by simp
  with c t show ?thesis by blast
qed

theorem cash_fixed_for_session_witness:
  "start_session demo_account demo_returns demo_closes = Inr demo_session
   \<and> reaches demo_session traded_session
   \<and> account_cash demo_account = 60000
   \<and> cash traded_session = 50000 \<and> tradecapital traded_session = 5000
   \<and> status traded_session = [(''AAA'', momentum_row), (''BBB'', steady_row)]
   \<and> Cash steady_row = 50000 \<and> TradeCapital steady_row = 5000"
proof -
  have f: "buying_power demo_account / multiplier demo_account - 25001 = 50000"
    by (simp add: demo_defs)
  have st: "status traded_session = [(''AAA'', momentum_row), (''BBB'', steady_row)]"
    by (simp add: demo_defs)
  have ac: "account_cash demo_account = 60000"
    by (simp add: demo_defs)
  from cash_fixed_for_session [OF start_demo reaches_traded]
  have "cash traded_session = 50000 \<and> tradecapital traded_session = 5000
     \<and> Cash steady_row = 50000 \<and> TradeCapital steady_row = 5000"
    unfolding f st by simp
  with start_demo reaches_traded ac st show ?thesis by blast
qed

end
